theory Spec2Isabelle
  imports Main
begin

section \<open>The Gmail connection lifecycle of the extension popup\<close>

text \<open>
  A shallow embedding of the two click handlers of the popup script: the connect handler
  (credential acquisition, identity lookup, token registration, retried handshake) and the
  logout handler. The handlers run against three external parties: the persisted store
  \<^verbatim>\<open>chrome.storage.local\<close>, the identity provider and the backend. Their answers
  are the fields of an environment, so that each answer the code can receive is a branch of
  the model; what the handlers do to the outside is recorded, in order, in a trace.

  Conventions: \<^verbatim>\<open>chrome.storage.local\<close> calls always complete; the callback of
  \<^verbatim>\<open>chrome.tabs.create\<close> is always invoked; a rejected \<^verbatim>\<open>fetch\<close>, a failing
  \<^verbatim>\<open>response.json()\<close> and a throwing platform call are the "throws" outcomes, with
  the message of the thrown error.
\<close>

subsection \<open>Values, errors and events\<close>

text \<open>The values the handlers keep in the store; \<open>VUndefined\<close> is JavaScript's \<^verbatim>\<open>undefined\<close>.\<close>

datatype sval = VBool bool | VStr string | VUndefined

text \<open>JavaScript truthiness, on these values.\<close>

fun truthy :: "sval \<Rightarrow> bool" where
  "truthy (VBool b) = b"
| "truthy (VStr s) = (s \<noteq> [])"
| "truthy VUndefined = False"

text \<open>
  The \<^verbatim>\<open>Error\<close> values of the script, one constructor for each place that makes one:
  an error thrown by the platform (\<^verbatim>\<open>fetch\<close>, \<^verbatim>\<open>json()\<close>, a chrome call), and the
  three \<^verbatim>\<open>new Error(...)\<close> templates.
\<close>

datatype error =
    PlatformError string
  | HandshakeNotOk nat
  | FailedAfter nat string
  | StoreTokenRejected string

fun digit :: "nat \<Rightarrow> char" where
  "digit n = ''0123456789'' ! n"

function string_of_nat :: "nat \<Rightarrow> string" where
  "string_of_nat n =
     (if n < 10 then [digit n] else string_of_nat (n div 10) @ [digit (n mod 10)])"
  by pat_completeness auto
termination
  by (relation "measure id") auto

declare string_of_nat.simps [simp del]

text \<open>\<^verbatim>\<open>error.message\<close>.\<close>

fun message :: "error \<Rightarrow> string" where
  "message (PlatformError m) = m"
| "message (HandshakeNotOk attempt) =
     ''Attempt '' @ string_of_nat attempt @ '': Failed to connect Gmail''"
| "message (FailedAfter retries m) =
     ''Failed after '' @ string_of_nat retries @ '' attempts: '' @ m"
| "message (StoreTokenRejected d) = ''Failed to connect Gmail: '' @ d"

datatype level = LevelLog | LevelError

text \<open>
  What a console line shows after its text: nothing, an error, the text of a JSON answer,
  \<^verbatim>\<open>undefined\<close>, a stored value, or the object of an error body with its
  \<^verbatim>\<open>detail\<close>, if it has one.
\<close>

datatype payload =
  PNone | PError error | PJson string | PUndefined | PValue sval | PBody "string option"

text \<open>
  What a handler does to the outside. The two backend requests of the connect path carry
  the fields of their JSON body: the email (\<open>None\<close> when \<^verbatim>\<open>userInfo.email\<close> is
  \<^verbatim>\<open>undefined\<close>, which \<^verbatim>\<open>JSON.stringify\<close> leaves out) and the token.
  \<open>Sleep d\<close> is the awaited \<^verbatim>\<open>setTimeout(resolve, d)\<close> of the retry loop, and
  \<open>TabsUpdateLater\<close> the \<^verbatim>\<open>chrome.tabs.update\<close> call of the 1500 ms timer, which fires when
  the rest of the callback is done.
\<close>

datatype event =
    GetAuthToken
  | StorageSet "(string \<times> sval) list"
  | StorageGet "string list"
  | StorageRemove "string list"
  | FetchUserinfo string
  | FetchStoreToken "string option" string
  | FetchHandshake "string option" string
  | FetchLogout sval
  | RemoveCachedAuthToken sval
  | Sleep nat
  | TabsCreate
  | TabsUpdateLater
  | Console level string payload

subsection \<open>The popup's buttons and the world\<close>

text \<open>
  The four texts the connect button shows: \<^verbatim>\<open>Connect your Gmail\<close>, the spinner with
  \<^verbatim>\<open>Connecting...\<close>, the check mark with \<^verbatim>\<open>Connected!\<close>, and
  \<^verbatim>\<open>Error connecting. Try again\<close>.
\<close>

datatype label = LConnect | LConnecting | LConnected | LError

datatype display = DisplayDefault | DisplayNone | DisplayBlock

record ui =
  connectLabel :: label
  connectDisabled :: bool
  connectDisplay :: display
  logoutDisplay :: display

record world =
  storage :: "string \<rightharpoonup> sval"
  buttons :: ui
  trace :: "event list"

definition emit :: "event \<Rightarrow> world \<Rightarrow> world" where
  "emit ev w = w\<lparr>trace := trace w @ [ev]\<rparr>"

text \<open>
  \<^verbatim>\<open>chrome.storage.local.set(items)\<close>: the store serialises the object, so a property
  whose value is \<^verbatim>\<open>undefined\<close> is not written.
\<close>

fun storeSet :: "(string \<times> sval) list \<Rightarrow> (string \<rightharpoonup> sval) \<Rightarrow> (string \<rightharpoonup> sval)" where
  "storeSet [] m = m"
| "storeSet ((k, v) # kvs) m = storeSet kvs (if v = VUndefined then m else m(k \<mapsto> v))"

fun storeRemove :: "string list \<Rightarrow> (string \<rightharpoonup> sval) \<Rightarrow> (string \<rightharpoonup> sval)" where
  "storeRemove [] m = m"
| "storeRemove (k # ks) m = storeRemove ks (m(k := None))"

text \<open>Reading a key into a variable: an absent key reads as \<^verbatim>\<open>undefined\<close>.\<close>

definition storeRead :: "(string \<rightharpoonup> sval) \<Rightarrow> string \<Rightarrow> sval" where
  "storeRead m k = (case m k of None \<Rightarrow> VUndefined | Some v \<Rightarrow> v)"

definition storageSet :: "(string \<times> sval) list \<Rightarrow> world \<Rightarrow> world" where
  "storageSet items w = emit (StorageSet items) (w\<lparr>storage := storeSet items (storage w)\<rparr>)"

definition storageRemove :: "string list \<Rightarrow> world \<Rightarrow> world" where
  "storageRemove ks w = emit (StorageRemove ks) (w\<lparr>storage := storeRemove ks (storage w)\<rparr>)"

definition console :: "level \<Rightarrow> string \<Rightarrow> payload \<Rightarrow> world \<Rightarrow> world" where
  "console l s p w = emit (Console l s p) w"

definition setButtonLoading :: "bool \<Rightarrow> world \<Rightarrow> world" where
  "setButtonLoading isLoading w =
     (if isLoading
      then w\<lparr>buttons := (buttons w)\<lparr>connectLabel := LConnecting, connectDisabled := True\<rparr>\<rparr>
      else w\<lparr>buttons := (buttons w)\<lparr>connectLabel := LConnect, connectDisabled := False\<rparr>\<rparr>)"

definition setConnectText :: "label \<Rightarrow> world \<Rightarrow> world" where
  "setConnectText l w = w\<lparr>buttons := (buttons w)\<lparr>connectLabel := l\<rparr>\<rparr>"

subsection \<open>The environment of a connect attempt\<close>

datatype auth_outcome = AuthToken string | AuthLastError string | AuthThrows string

datatype userinfo_outcome = UserinfoThrows string | UserinfoJson "string option"

text \<open>The body of a non-2xx answer: unreadable, or JSON with or without a \<^verbatim>\<open>detail\<close>.\<close>

datatype error_body = BodyThrows string | BodyDetail "string option"

datatype storetoken_outcome =
    StoreTokenThrows string | StoreTokenOk | StoreTokenNotOk error_body

datatype handshake_outcome =
    HandshakeThrows string | HandshakeRejected | HandshakeOk string | HandshakeOkBadJson string

text \<open>\<open>handshake env k\<close> is the backend's answer to the \<open>k\<close>-th handshake request.\<close>

record env =
  auth :: auth_outcome
  userinfo :: userinfo_outcome
  storeToken :: storetoken_outcome
  handshake :: "nat \<Rightarrow> handshake_outcome"

subsection \<open>The retried handshake\<close>

text \<open>
  The \<^verbatim>\<open>try\<close> block of one attempt: the value it returns, or the error its
  \<^verbatim>\<open>catch\<close> receives.
\<close>

fun handshakeTry :: "nat \<Rightarrow> handshake_outcome \<Rightarrow> error + string" where
  "handshakeTry attempt (HandshakeThrows m) = Inl (PlatformError m)"
| "handshakeTry attempt HandshakeRejected = Inl (HandshakeNotOk attempt)"
| "handshakeTry attempt (HandshakeOk ack) = Inr ack"
| "handshakeTry attempt (HandshakeOkBadJson m) = Inl (PlatformError m)"

text \<open>
  The loop \<^verbatim>\<open>for (let attempt = 1; attempt <= retries; attempt++)\<close>, from a given
  value of \<open>attempt\<close>. A loop that ends without returning makes the function return
  \<^verbatim>\<open>undefined\<close>, the result \<open>Inr None\<close>. The arguments \<open>retries\<close> and \<open>delay\<close> are
  natural numbers, as the defaults 3 and 1000 that the only call uses.
\<close>

function attemptLoop ::
  "env \<Rightarrow> string option \<Rightarrow> string \<Rightarrow> nat \<Rightarrow> nat \<Rightarrow> nat \<Rightarrow> world \<Rightarrow> (error + string option) \<times> world"
where
  "attemptLoop e email token retries delay attempt w =
     (if attempt \<le> retries then
        (let w1 = emit (FetchHandshake email token) w in
         case handshakeTry attempt (handshake e attempt) of
           Inr ack \<Rightarrow> (Inr (Some ack), w1)
         | Inl err \<Rightarrow>
             (let w2 = console LevelLog (''Attempt '' @ string_of_nat attempt @ '' failed:'')
                         (PError err) w1
              in if attempt = retries
                 then (Inl (FailedAfter retries (message err)), w2)
                 else attemptLoop e email token retries delay (Suc attempt) (emit (Sleep delay) w2)))
      else (Inr None, w))"
  by pat_completeness auto
termination
  by (relation "measure (\<lambda>(e, email, token, retries, delay, attempt, w). Suc retries - attempt)") auto

declare attemptLoop.simps [simp del]

definition attemptHandshake ::
  "env \<Rightarrow> string option \<Rightarrow> string \<Rightarrow> nat \<Rightarrow> nat \<Rightarrow> world \<Rightarrow> (error + string option) \<times> world"
where
  "attemptHandshake e email token retries delay w = attemptLoop e email token retries delay 1 w"

subsection \<open>The connect handler\<close>

definition emailValue :: "string option \<Rightarrow> sval" where
  "emailValue email = (case email of None \<Rightarrow> VUndefined | Some a \<Rightarrow> VStr a)"

definition ackPayload :: "string option \<Rightarrow> payload" where
  "ackPayload r = (case r of None \<Rightarrow> PUndefined | Some a \<Rightarrow> PJson a)"

text \<open>The three identical \<^verbatim>\<open>catch\<close> blocks of the handler, after their log line.\<close>

definition showError :: "world \<Rightarrow> world" where
  "showError w = setConnectText LError (setButtonLoading False w)"

text \<open>
  The callback of \<^verbatim>\<open>chrome.tabs.create\<close>. The promise \<^verbatim>\<open>waitForLoad\<close> is made and
  never awaited, so the handshake starts at once, with the default arguments.
\<close>

definition tabCreated :: "env \<Rightarrow> string option \<Rightarrow> string \<Rightarrow> world \<Rightarrow> world" where
  "tabCreated e email token w =
     emit TabsUpdateLater
       (case attemptHandshake e email token 3 1000 w of
          (Inr handshakeResponse, w1) \<Rightarrow>
            (let w2 = console LevelLog ''Connection successful:'' (ackPayload handshakeResponse) w1;
                 w3 = storageSet [(''isConnected'', VBool True), (''userEmail'', emailValue email)] w2;
                 w4 = console LevelLog ''Storage updated with connection status'' PNone w3;
                 w5 = emit (StorageGet [''isConnected'']) w4
             in console LevelLog ''Storage after setting:''
                  (PValue (storeRead (storage w5) ''isConnected'')) w5)
        | (Inl err, w1) \<Rightarrow>
            showError (console LevelError ''Handshake failed:'' (PError err) w1))"

text \<open>
  The inner \<^verbatim>\<open>try\<close> block, from the userinfo request to the call of
  \<^verbatim>\<open>chrome.tabs.create\<close>: \<open>Inl\<close> is the error its \<^verbatim>\<open>catch\<close> receives, with the
  world at the throw.
\<close>

definition registerToken :: "env \<Rightarrow> string \<Rightarrow> world \<Rightarrow> (error + string option) \<times> world" where
  "registerToken e token w =
     (let w1 = emit (FetchUserinfo token) w in
      case userinfo e of
        UserinfoThrows m \<Rightarrow> (Inl (PlatformError m), w1)
      | UserinfoJson email \<Rightarrow>
          (let w2 = emit (FetchStoreToken email token) w1 in
           case storeToken e of
             StoreTokenThrows m \<Rightarrow> (Inl (PlatformError m), w2)
           | StoreTokenNotOk body \<Rightarrow>
               (case body of
                  BodyThrows m \<Rightarrow> (Inl (PlatformError m), w2)
                | BodyDetail detail \<Rightarrow>
                    (Inl (StoreTokenRejected
                            (case detail of
                               None \<Rightarrow> ''Unknown error''
                             | Some d \<Rightarrow> if d = [] then ''Unknown error'' else d)),
                     setConnectText LError w2))
           | StoreTokenOk \<Rightarrow>
               (let w3 = storageSet [(''isConnected'', VBool True), (''userEmail'', emailValue email)] w2;
                    w4 = w3\<lparr>buttons := (buttons w3)\<lparr>connectLabel := LConnected, connectDisabled := True,
                                 connectDisplay := DisplayNone, logoutDisplay := DisplayBlock\<rparr>\<rparr>
                in (Inr email, emit TabsCreate w4))))"

text \<open>The callback of \<^verbatim>\<open>chrome.identity.getAuthToken\<close>, when a token arrived.\<close>

definition tokenReceived :: "env \<Rightarrow> string \<Rightarrow> world \<Rightarrow> world" where
  "tokenReceived e token w =
     (case registerToken e token (storageSet [(''gmailToken'', VStr token)] w) of
        (Inl err, w1) \<Rightarrow> showError (console LevelError ''Error:'' (PError err) w1)
      | (Inr email, w1) \<Rightarrow> tabCreated e email token w1)"

text \<open>The click handler of the connect button.\<close>

definition connectClick :: "env \<Rightarrow> world \<Rightarrow> world" where
  "connectClick e w =
     (let w1 = emit GetAuthToken (setButtonLoading True w) in
      case auth e of
        AuthThrows m \<Rightarrow> showError (console LevelError ''Error:'' (PError (PlatformError m)) w1)
      | AuthLastError m \<Rightarrow> showError (console LevelError [] (PJson m) w1)
      | AuthToken token \<Rightarrow> tokenReceived e token w1)"

subsection \<open>The logout handler\<close>

datatype revoke_outcome = RevokeCallback | RevokeThrows string

datatype logout_outcome = LogoutThrows string | LogoutOk | LogoutNotOk error_body

record logout_env =
  revoke :: revoke_outcome
  logoutBackend :: logout_outcome

text \<open>The callback of \<^verbatim>\<open>chrome.identity.removeCachedAuthToken\<close>.\<close>

definition tokenRemoved :: "logout_env \<Rightarrow> sval \<Rightarrow> world \<Rightarrow> world" where
  "tokenRemoved le userEmail w =
     (let w1 = w\<lparr>buttons := (buttons w)\<lparr>connectLabel := LConnect, connectDisabled := False,
                     connectDisplay := DisplayBlock, logoutDisplay := DisplayNone\<rparr>\<rparr>;
          w2 = emit (FetchLogout userEmail) w1
      in case logoutBackend le of
           LogoutThrows m \<Rightarrow> console LevelError ''Failed to notify backend:'' (PError (PlatformError m)) w2
         | LogoutOk \<Rightarrow> w2
         | LogoutNotOk body \<Rightarrow>
             (case body of
                BodyThrows m \<Rightarrow>
                  console LevelError ''Failed to notify backend:'' (PError (PlatformError m)) w2
              | BodyDetail detail \<Rightarrow>
                  console LevelError ''Logout failed:'' (PBody detail) w2))"

text \<open>The click handler of the logout button.\<close>

definition logoutClick :: "logout_env \<Rightarrow> world \<Rightarrow> world" where
  "logoutClick le w =
     (let w1 = emit (StorageGet [''userEmail'', ''gmailToken'']) w;
          userEmail = storeRead (storage w1) ''userEmail'';
          gmailToken = storeRead (storage w1) ''gmailToken''
      in if \<not> truthy userEmail
         then console LevelError ''No user email found in storage'' PNone w1
         else
           (let w2 = storageRemove [''isConnected'', ''userEmail'', ''gmailToken''] w1;
                w3 = emit (RemoveCachedAuthToken gmailToken) w2
            in case revoke le of
                 RevokeThrows m \<Rightarrow> console LevelError ''Logout failed:'' (PError (PlatformError m)) w3
               | RevokeCallback \<Rightarrow> tokenRemoved le userEmail w3))"

subsection \<open>Observations on traces\<close>

fun isHandshakeCall :: "event \<Rightarrow> bool" where
  "isHandshakeCall (FetchHandshake email token) = True"
| "isHandshakeCall ev = False"

fun isStoreTokenCall :: "event \<Rightarrow> bool" where
  "isStoreTokenCall (FetchStoreToken email token) = True"
| "isStoreTokenCall ev = False"

fun isOutsideCall :: "event \<Rightarrow> bool" where
  "isOutsideCall GetAuthToken = True"
| "isOutsideCall (FetchUserinfo token) = True"
| "isOutsideCall (FetchStoreToken email token) = True"
| "isOutsideCall (FetchHandshake email token) = True"
| "isOutsideCall (FetchLogout email) = True"
| "isOutsideCall (RemoveCachedAuthToken token) = True"
| "isOutsideCall ev = False"

fun isStoreWrite :: "event \<Rightarrow> bool" where
  "isStoreWrite (StorageSet items) = True"
| "isStoreWrite (StorageRemove ks) = True"
| "isStoreWrite ev = False"

fun isSleep :: "event \<Rightarrow> bool" where
  "isSleep (Sleep d) = True"
| "isSleep ev = False"

fun isConsole :: "event \<Rightarrow> bool" where
  "isConsole (Console l s p) = True"
| "isConsole ev = False"

fun isUserinfoCall :: "event \<Rightarrow> bool" where
  "isUserinfoCall (FetchUserinfo token) = True"
| "isUserinfoCall ev = False"

text \<open>The two calls the logout handler makes to the provider and to the backend.\<close>

fun isRevokeOrNotify :: "event \<Rightarrow> bool" where
  "isRevokeOrNotify (RemoveCachedAuthToken token) = True"
| "isRevokeOrNotify (FetchLogout email) = True"
| "isRevokeOrNotify ev = False"

text \<open>The keys a write to the store names, and whether a write names a given key.\<close>

fun writtenKeys :: "event \<Rightarrow> string list" where
  "writtenKeys (StorageSet items) = map fst items"
| "writtenKeys ev = []"

fun removedKeys :: "event \<Rightarrow> string list" where
  "removedKeys (StorageRemove ks) = ks"
| "removedKeys ev = []"

definition writesKey :: "string \<Rightarrow> event \<Rightarrow> bool" where
  "writesKey k ev = (k \<in> set (writtenKeys ev))"

text \<open>
  \<open>notBefore Q P evs\<close>: no event with \<open>Q\<close> comes before the first event with \<open>P\<close>, and
  none comes at all when no event has \<open>P\<close>.
\<close>

fun notBefore :: "('a \<Rightarrow> bool) \<Rightarrow> ('a \<Rightarrow> bool) \<Rightarrow> 'a list \<Rightarrow> bool" where
  "notBefore Q P [] = True"
| "notBefore Q P (x # xs) = (if P x then True else \<not> Q x \<and> notBefore Q P xs)"

text \<open>The events a handler added to the trace it started from.\<close>

definition added :: "world \<Rightarrow> world \<Rightarrow> event list" where
  "added w w' = drop (length (trace w)) (trace w')"

definition handshakeCalls :: "event list \<Rightarrow> nat" where
  "handshakeCalls evs = length (filter isHandshakeCall evs)"

text \<open>The popup as first opened: nothing stored, the connect button enabled, the logout button hidden.\<close>

definition world0 :: world where
  "world0 = \<lparr>storage = Map.empty,
             buttons = \<lparr>connectLabel = LConnect, connectDisabled = False,
                        connectDisplay = DisplayDefault, logoutDisplay = DisplayNone\<rparr>,
             trace = []\<rparr>"

text \<open>
  The handshake requests and the waits of a trace, in order, and the shape they have after
  \<open>n\<close> requests: a wait of the same \<open>delay\<close> between each request and the next, none
  after the last.
\<close>

definition skeleton :: "event list \<Rightarrow> event list" where
  "skeleton evs = filter (\<lambda>ev. isHandshakeCall ev \<or> isSleep ev) evs"

definition retryPattern :: "string option \<Rightarrow> string \<Rightarrow> nat \<Rightarrow> nat \<Rightarrow> event list" where
  "retryPattern email token delay n =
     concat (replicate (n - 1) [FetchHandshake email token, Sleep delay]) @ [FetchHandshake email token]"

text \<open>The \<open>k\<close>-th attempt ends in its \<^verbatim>\<open>catch\<close> block.\<close>

definition attemptFails :: "env \<Rightarrow> nat \<Rightarrow> bool" where
  "attemptFails e k = isl (handshakeTry k (handshake e k))"

text \<open>Two backends: one that accepts the third handshake request, one that is never reached.\<close>

definition envThird :: env where
  "envThird = \<lparr>auth = AuthToken ''tok_abc'', userinfo = UserinfoJson (Some ''user@example.com''),
      storeToken = StoreTokenOk,
      handshake = (\<lambda>k. if k = 3 then HandshakeOk ''{ack:true}'' else HandshakeRejected)\<rparr>"

definition envNever :: env where
  "envNever = \<lparr>auth = AuthToken ''tok_abc'', userinfo = UserinfoJson (Some ''user@example.com''),
      storeToken = StoreTokenOk,
      handshake = (\<lambda>k. HandshakeThrows ''Failed to fetch'')\<rparr>"

text \<open>
  A popup opened on a store that holds a session (the connect button hidden, the logout button
  shown), a provider whose revoke call throws, and a backend that cannot be reached for the
  logout notification.
\<close>

definition worldConnected :: world where
  "worldConnected =
     \<lparr>storage = [''isConnected'' \<mapsto> VBool True, ''userEmail'' \<mapsto> VStr ''user@example.com'',
                 ''gmailToken'' \<mapsto> VStr ''tok_abc''],
      buttons = \<lparr>connectLabel = LConnected, connectDisabled = True,
                 connectDisplay = DisplayNone, logoutDisplay = DisplayBlock\<rparr>,
      trace = []\<rparr>"

definition envRevokeThrows :: logout_env where
  "envRevokeThrows = \<lparr>revoke = RevokeThrows ''revoke failed'', logoutBackend = LogoutOk\<rparr>"

text \<open>The world in which the callback of \<open>chrome.tabs.create\<close> starts.\<close>

definition registered :: "string option \<Rightarrow> string \<Rightarrow> world \<Rightarrow> world" where
  "registered email t w =
     w\<lparr>storage := storeSet [(''isConnected'', VBool True), (''userEmail'', emailValue email)]
                  ((storage w)(''gmailToken'' \<mapsto> VStr t)),
       buttons := (buttons w)\<lparr>connectLabel := LConnected, connectDisabled := True,
                  connectDisplay := DisplayNone, logoutDisplay := DisplayBlock\<rparr>,
       trace := trace w @ [GetAuthToken, StorageSet [(''gmailToken'', VStr t)], FetchUserinfo t,
                FetchStoreToken email t,
                StorageSet [(''isConnected'', VBool True), (''userEmail'', emailValue email)],
                TabsCreate]\<rparr>"

text \<open>The error the inner \<^verbatim>\<open>catch\<close> receives when the registration does not go through.\<close>

definition registerError :: "env \<Rightarrow> error" where
  "registerError e =
     (case userinfo e of
        UserinfoThrows m \<Rightarrow> PlatformError m
      | UserinfoJson email \<Rightarrow>
          (case storeToken e of
             StoreTokenThrows m \<Rightarrow> PlatformError m
           | StoreTokenNotOk (BodyThrows m) \<Rightarrow> PlatformError m
           | StoreTokenNotOk (BodyDetail None) \<Rightarrow> StoreTokenRejected ''Unknown error''
           | StoreTokenNotOk (BodyDetail (Some d)) \<Rightarrow>
               StoreTokenRejected (if d = [] then ''Unknown error'' else d)
           | StoreTokenOk \<Rightarrow> PlatformError []))"

text \<open>
  A backend that rejects the token with a detail, a user who denies the token, and a backend
  that cannot be reached for storeToken.
\<close>

definition envBadToken :: env where
  "envBadToken = \<lparr>auth = AuthToken ''tok_abc'', userinfo = UserinfoJson (Some ''user@example.com''),
      storeToken = StoreTokenNotOk (BodyDetail (Some ''bad token'')),
      handshake = (\<lambda>k. HandshakeOk ''{ack:true}'')\<rparr>"

definition envDenied :: env where
  "envDenied = \<lparr>auth = AuthLastError ''The user did not approve access.'',
      userinfo = UserinfoJson (Some ''user@example.com''), storeToken = StoreTokenOk,
      handshake = (\<lambda>k. HandshakeOk ''{ack:true}'')\<rparr>"

definition envBackendDown :: logout_env where
  "envBackendDown = \<lparr>revoke = RevokeCallback, logoutBackend = LogoutThrows ''Failed to fetch''\<rparr>"

definition envStoreDown :: env where
  "envStoreDown = \<lparr>auth = AuthToken ''tok_abc'', userinfo = UserinfoJson (Some ''user@example.com''),
      storeToken = StoreTokenThrows ''Failed to fetch'',
      handshake = (\<lambda>k. HandshakeOk ''{ack:true}'')\<rparr>"

text \<open>
  The worlds in which a connect run is suspended before its buttons change again: after the call
  of \<^verbatim>\<open>getAuthToken\<close>, during the write of \<^verbatim>\<open>gmailToken\<close>, during the userinfo
  request, during the storeToken request, and during the write of \<^verbatim>\<open>isConnected\<close>. The
  next suspension, after \<^verbatim>\<open>chrome.tabs.create\<close>, is \<open>registered\<close>.
\<close>

definition acquiring :: "world \<Rightarrow> world" where
  "acquiring w = emit GetAuthToken (setButtonLoading True w)"

definition tokenStored :: "string \<Rightarrow> world \<Rightarrow> world" where
  "tokenStored token w = storageSet [(''gmailToken'', VStr token)] (acquiring w)"

definition identifying :: "string \<Rightarrow> world \<Rightarrow> world" where
  "identifying token w = emit (FetchUserinfo token) (tokenStored token w)"

definition registering :: "string option \<Rightarrow> string \<Rightarrow> world \<Rightarrow> world" where
  "registering email token w = emit (FetchStoreToken email token) (identifying token w)"

definition connectionStored :: "string option \<Rightarrow> string \<Rightarrow> world \<Rightarrow> world" where
  "connectionStored email token w =
     storageSet [(''isConnected'', VBool True), (''userEmail'', emailValue email)]
       (registering email token w)"






section \<open>Properties\<close>

subsection \<open>The retry loop, one step at a time\<close>

lemma added_extend [simp]: "added w (w\<lparr>trace := trace w @ evs\<rparr>) = evs"
  by (simp add: added_def)

lemma loop_done:
  "\<not> attempt \<le> retries \<Longrightarrow> attemptLoop e email token retries delay attempt w = (Inr None, w)"
  by (subst attemptLoop.simps) simp

lemma loop_ok:
  "attempt \<le> retries \<Longrightarrow> handshakeTry attempt (handshake e attempt) = Inr ack \<Longrightarrow>
   attemptLoop e email token retries delay attempt w
     = (Inr (Some ack), w\<lparr>trace := trace w @ [FetchHandshake email token]\<rparr>)"
  by (subst attemptLoop.simps) (simp add: emit_def)

lemma loop_last:
  "handshakeTry retries (handshake e retries) = Inl err \<Longrightarrow>
   attemptLoop e email token retries delay retries w
     = (Inl (FailedAfter retries (message err)),
        w\<lparr>trace := trace w @ [FetchHandshake email token,
             Console LevelLog (''Attempt '' @ string_of_nat retries @ '' failed:'') (PError err)]\<rparr>)"
  by (subst attemptLoop.simps) (simp add: emit_def console_def)

lemma loop_retry:
  "attempt < retries \<Longrightarrow> handshakeTry attempt (handshake e attempt) = Inl err \<Longrightarrow>
   attemptLoop e email token retries delay attempt w
     = attemptLoop e email token retries delay (Suc attempt)
         (w\<lparr>trace := trace w @ [FetchHandshake email token,
             Console LevelLog (''Attempt '' @ string_of_nat attempt @ '' failed:'') (PError err),
             Sleep delay]\<rparr>)"
  by (subst attemptLoop.simps) (simp add: emit_def console_def)

text \<open>What the loop leaves alone, and what it may add to the trace.\<close>

lemma loop_frame:
  "\<exists>evs. snd (attemptLoop e email token retries delay attempt w) = w\<lparr>trace := trace w @ evs\<rparr>
     \<and> (\<forall>ev \<in> set evs. ev = FetchHandshake email token \<or> ev = Sleep delay \<or> isConsole ev)
     \<and> handshakeCalls evs \<le> Suc retries - attempt"
proof (induction "Suc retries - attempt" arbitrary: attempt w)
  case 0
  then have "\<not> attempt \<le> retries" by simp
  then have "snd (attemptLoop e email token retries delay attempt w) = w\<lparr>trace := trace w @ []\<rparr>"
    by (simp add: loop_done)
  then show ?case
    by (intro exI [of _ "[]"]) (simp add: handshakeCalls_def)
next
  case (Suc n)
  then have le: "attempt \<le> retries" by simp
  show ?case
  proof (cases "handshakeTry attempt (handshake e attempt)")
    case (Inr ack)
    have "handshakeCalls [FetchHandshake email token] \<le> Suc retries - attempt"
      using le by (simp add: handshakeCalls_def)
    then show ?thesis
      using loop_ok [OF le Inr, of email token delay w]
      by (intro exI [of _ "[FetchHandshake email token]"]) simp
  next
    case (Inl err)
    show ?thesis
    proof (cases "attempt = retries")
      case True
      let ?evs = "[FetchHandshake email token,
                   Console LevelLog (''Attempt '' @ string_of_nat retries @ '' failed:'') (PError err)]"
      have "handshakeCalls ?evs \<le> Suc retries - attempt"
        using le by (simp add: handshakeCalls_def)
      then show ?thesis
        using loop_last [of retries e err email token delay w] Inl True
        by (intro exI [of _ ?evs]) simp
    next
      case False
      let ?pre = "[FetchHandshake email token,
                   Console LevelLog (''Attempt '' @ string_of_nat attempt @ '' failed:'') (PError err),
                   Sleep delay]"
      let ?w2 = "w\<lparr>trace := trace w @ ?pre\<rparr>"
      from le False have lt: "attempt < retries" by simp
      have n: "n = Suc retries - Suc attempt" using Suc.hyps(2) by simp
      from Suc.hyps(1) [OF n, of ?w2] obtain evs where
        evs: "snd (attemptLoop e email token retries delay (Suc attempt) ?w2) = ?w2\<lparr>trace := trace ?w2 @ evs\<rparr>"
          "\<forall>ev \<in> set evs. ev = FetchHandshake email token \<or> ev = Sleep delay \<or> isConsole ev"
          "handshakeCalls evs \<le> Suc retries - Suc attempt"
        by blast
      have "handshakeCalls (?pre @ evs) \<le> Suc retries - attempt"
        using evs(3) lt by (simp add: handshakeCalls_def)
      with evs(1,2) loop_retry [OF lt Inl, of email token delay w] show ?thesis
        by (intro exI [of _ "?pre @ evs"]) auto
    qed
  qed
qed

lemma loop_success:
  assumes "attempt \<le> k" "k \<le> retries"
    and "\<forall>j. attempt \<le> j \<and> j < k \<longrightarrow> attemptFails e j"
    and "handshakeTry k (handshake e k) = Inr ack"
  shows "\<exists>evs. attemptLoop e email token retries delay attempt w
                 = (Inr (Some ack), w\<lparr>trace := trace w @ evs\<rparr>)
           \<and> skeleton evs = concat (replicate (k - attempt) [FetchHandshake email token, Sleep delay])
                              @ [FetchHandshake email token]"
  using assms
proof (induction "k - attempt" arbitrary: attempt w)
  case 0
  then have "attempt = k" by simp
  with 0 have "attemptLoop e email token retries delay attempt w
                 = (Inr (Some ack), w\<lparr>trace := trace w @ [FetchHandshake email token]\<rparr>)"
    by (simp add: loop_ok)
  then show ?case
    using \<open>attempt = k\<close> by (intro exI [of _ "[FetchHandshake email token]"]) (simp add: skeleton_def)
next
  case (Suc n)
  then have lt: "attempt < k" and ltr: "attempt < retries" by auto
  from Suc.prems(3) lt obtain err where err: "handshakeTry attempt (handshake e attempt) = Inl err"
    by (cases "handshakeTry attempt (handshake e attempt)") (auto simp: attemptFails_def)
  let ?pre = "[FetchHandshake email token,
               Console LevelLog (''Attempt '' @ string_of_nat attempt @ '' failed:'') (PError err),
               Sleep delay]"
  let ?w2 = "w\<lparr>trace := trace w @ ?pre\<rparr>"
  have "n = k - Suc attempt" using Suc.hyps(2) by simp
  moreover have "Suc attempt \<le> k" using lt by simp
  moreover have "\<forall>j. Suc attempt \<le> j \<and> j < k \<longrightarrow> attemptFails e j"
    using Suc.prems(3) by simp
  ultimately obtain evs where
    evs: "attemptLoop e email token retries delay (Suc attempt) ?w2
            = (Inr (Some ack), ?w2\<lparr>trace := trace ?w2 @ evs\<rparr>)"
         "skeleton evs = concat (replicate (k - Suc attempt) [FetchHandshake email token, Sleep delay])
                              @ [FetchHandshake email token]"
    using Suc.hyps(1) [of "Suc attempt" ?w2] Suc.prems(2,4) by blast
  have "k - attempt = Suc (k - Suc attempt)" using lt by simp
  then have "skeleton (?pre @ evs) = concat (replicate (k - attempt) [FetchHandshake email token, Sleep delay])
                              @ [FetchHandshake email token]"
    using evs(2) by (simp add: skeleton_def)
  with loop_retry [OF ltr err, of email token delay w] evs(1) show ?case
    by (intro exI [of _ "?pre @ evs"]) simp
qed

lemma loop_exhausted:
  assumes "attempt \<le> retries"
    and "\<forall>j. attempt \<le> j \<and> j \<le> retries \<longrightarrow> attemptFails e j"
  shows "\<exists>evs err. handshakeTry retries (handshake e retries) = Inl err
           \<and> attemptLoop e email token retries delay attempt w
                 = (Inl (FailedAfter retries (message err)), w\<lparr>trace := trace w @ evs\<rparr>)
           \<and> skeleton evs = concat (replicate (retries - attempt) [FetchHandshake email token, Sleep delay])
                              @ [FetchHandshake email token]"
  using assms
proof (induction "retries - attempt" arbitrary: attempt w)
  case 0
  then have eq: "attempt = retries" by simp
  from 0 obtain err where err: "handshakeTry retries (handshake e retries) = Inl err"
    by (cases "handshakeTry retries (handshake e retries)") (auto simp: attemptFails_def)
  let ?evs = "[FetchHandshake email token,
               Console LevelLog (''Attempt '' @ string_of_nat retries @ '' failed:'') (PError err)]"
  show ?case
    using loop_last [OF err, of email token delay w] err eq
    by (intro exI [of _ ?evs] exI [of _ err]) (simp add: skeleton_def)
next
  case (Suc n)
  then have lt: "attempt < retries" by auto
  from Suc.prems(2) lt obtain err where err: "handshakeTry attempt (handshake e attempt) = Inl err"
    by (cases "handshakeTry attempt (handshake e attempt)") (auto simp: attemptFails_def)
  let ?pre = "[FetchHandshake email token,
               Console LevelLog (''Attempt '' @ string_of_nat attempt @ '' failed:'') (PError err),
               Sleep delay]"
  let ?w2 = "w\<lparr>trace := trace w @ ?pre\<rparr>"
  have "n = retries - Suc attempt" using Suc.hyps(2) by simp
  moreover have "Suc attempt \<le> retries" using lt by simp
  moreover have "\<forall>j. Suc attempt \<le> j \<and> j \<le> retries \<longrightarrow> attemptFails e j"
    using Suc.prems(2) by simp
  ultimately obtain evs err' where
    evs: "handshakeTry retries (handshake e retries) = Inl err'"
         "attemptLoop e email token retries delay (Suc attempt) ?w2
            = (Inl (FailedAfter retries (message err')), ?w2\<lparr>trace := trace ?w2 @ evs\<rparr>)"
         "skeleton evs = concat (replicate (retries - Suc attempt) [FetchHandshake email token, Sleep delay])
                              @ [FetchHandshake email token]"
    using Suc.hyps(1) [of "Suc attempt" ?w2] by blast
  have "retries - attempt = Suc (retries - Suc attempt)" using lt by simp
  then have "skeleton (?pre @ evs) = concat (replicate (retries - attempt) [FetchHandshake email token, Sleep delay])
                              @ [FetchHandshake email token]"
    using evs(3) by (simp add: skeleton_def)
  with loop_retry [OF lt err, of email token delay w] evs(1,2) show ?case
    by (intro exI [of _ "?pre @ evs"] exI [of _ err']) simp
qed

lemma handshakeCalls_skeleton: "handshakeCalls (skeleton evs) = handshakeCalls evs"
  by (induction evs) (auto simp: handshakeCalls_def skeleton_def)

lemma handshakeCalls_pattern:
  "handshakeCalls (concat (replicate n [FetchHandshake email token, Sleep delay]) @ [FetchHandshake email token]) = Suc n"
  by (induction n) (auto simp: handshakeCalls_def)

subsection \<open>The retried handshake as a whole\<close>

lemma handshake_first_success:
  assumes "1 \<le> k" "k \<le> retries"
    and "\<forall>j. 1 \<le> j \<and> j < k \<longrightarrow> attemptFails e j"
    and "\<not> attemptFails e k"
    and "attemptHandshake e email token retries delay w = (r, w')"
  shows "r = Inr (Some (projr (handshakeTry k (handshake e k))))
       \<and> handshakeCalls (added w w') = k
       \<and> skeleton (added w w') = retryPattern email token delay k"
proof -
  from assms(4) obtain ack where ack: "handshakeTry k (handshake e k) = Inr ack"
    by (cases "handshakeTry k (handshake e k)") (auto simp: attemptFails_def)
  from loop_success [OF assms(1,2,3) ack, of email token delay w] obtain evs where
    evs: "attemptLoop e email token retries delay 1 w = (Inr (Some ack), w\<lparr>trace := trace w @ evs\<rparr>)"
         "skeleton evs = concat (replicate (k - 1) [FetchHandshake email token, Sleep delay])
                           @ [FetchHandshake email token]"
    by blast
  from evs(1) assms(5) have r: "r = Inr (Some ack)" and w': "w' = w\<lparr>trace := trace w @ evs\<rparr>"
    by (simp_all add: attemptHandshake_def)
  have "handshakeCalls evs = handshakeCalls (skeleton evs)"
    by (simp add: handshakeCalls_skeleton)
  also have "\<dots> = Suc (k - 1)"
    by (simp only: evs(2) handshakeCalls_pattern)
  finally have "handshakeCalls evs = k" using assms(1) by simp
  with r w' evs(2) ack show ?thesis
    by (simp add: retryPattern_def)
qed

lemma handshake_all_fail:
  assumes "1 \<le> retries"
    and "\<forall>j. 1 \<le> j \<and> j \<le> retries \<longrightarrow> attemptFails e j"
    and "attemptHandshake e email token retries delay w = (r, w')"
  shows "r = Inl (FailedAfter retries (message (projl (handshakeTry retries (handshake e retries)))))
       \<and> handshakeCalls (added w w') = retries
       \<and> skeleton (added w w') = retryPattern email token delay retries"
proof -
  from loop_exhausted [OF assms(1,2), of email token delay w] obtain evs err where
    evs: "handshakeTry retries (handshake e retries) = Inl err"
         "attemptLoop e email token retries delay 1 w
            = (Inl (FailedAfter retries (message err)), w\<lparr>trace := trace w @ evs\<rparr>)"
         "skeleton evs = concat (replicate (retries - 1) [FetchHandshake email token, Sleep delay])
                           @ [FetchHandshake email token]"
    by blast
  from evs(2) assms(3) have r: "r = Inl (FailedAfter retries (message err))"
    and w': "w' = w\<lparr>trace := trace w @ evs\<rparr>"
    by (simp_all add: attemptHandshake_def)
  have "handshakeCalls evs = handshakeCalls (skeleton evs)"
    by (simp add: handshakeCalls_skeleton)
  also have "\<dots> = Suc (retries - 1)"
    by (simp only: evs(3) handshakeCalls_pattern)
  finally have "handshakeCalls evs = retries" using assms(1) by simp
  with r w' evs(1,3) show ?thesis
    by (simp add: retryPattern_def)
qed

lemma handshake_calls_bounded:
  assumes "attemptHandshake e email token retries delay w = (r, w')"
  shows "handshakeCalls (added w w') \<le> retries"
proof -
  from loop_frame [of e email token retries delay 1 w] obtain evs where
    "snd (attemptLoop e email token retries delay 1 w) = w\<lparr>trace := trace w @ evs\<rparr>"
    "handshakeCalls evs \<le> Suc retries - 1"
    by blast
  with assms show ?thesis
    by (simp add: attemptHandshake_def)
qed

text \<open>
  Claim C2. The retried handshake, as the connect handler calls it (three attempts), makes at
  most 3 handshake requests. It returns at the first attempt \<open>k\<close> that succeeds, with that
  attempt's answer and after exactly \<open>k\<close> requests. Between each failed attempt and the
  next request it waits once, always the same \<open>delay\<close>, and it does not wait after the
  last request (\<open>retryPattern\<close>). If all three attempts fail it throws an error that carries the
  message of the third attempt's error, after exactly 3 requests.
\<close>

theorem attemptHandshake_bounded_retry:
  assumes "attemptHandshake e email token 3 delay w = (r, w')"
  shows "handshakeCalls (added w w') \<le> 3
     \<and> (\<forall>k. 1 \<le> k \<and> k \<le> 3 \<and> (\<forall>j. 1 \<le> j \<and> j < k \<longrightarrow> attemptFails e j) \<and> \<not> attemptFails e k \<longrightarrow>
          r = Inr (Some (projr (handshakeTry k (handshake e k))))
          \<and> handshakeCalls (added w w') = k
          \<and> skeleton (added w w') = retryPattern email token delay k)
     \<and> ((\<forall>j. 1 \<le> j \<and> j \<le> 3 \<longrightarrow> attemptFails e j) \<longrightarrow>
          r = Inl (FailedAfter 3 (message (projl (handshakeTry 3 (handshake e 3)))))
          \<and> handshakeCalls (added w w') = 3
          \<and> skeleton (added w w') = retryPattern email token delay 3)"
proof (intro conjI allI impI)
  show "handshakeCalls (added w w') \<le> 3"
    using handshake_calls_bounded [OF assms] .
next
  fix k
  assume k: "1 \<le> k \<and> k \<le> 3 \<and> (\<forall>j. 1 \<le> j \<and> j < k \<longrightarrow> attemptFails e j) \<and> \<not> attemptFails e k"
  then have *: "r = Inr (Some (projr (handshakeTry k (handshake e k))))
       \<and> handshakeCalls (added w w') = k
       \<and> skeleton (added w w') = retryPattern email token delay k"
    using handshake_first_success [of k 3 e email token delay w r w'] assms by blast
  from * show "r = Inr (Some (projr (handshakeTry k (handshake e k))))" by simp
  from * show "handshakeCalls (added w w') = k" by simp
  from * show "skeleton (added w w') = retryPattern email token delay k" by simp
next
  assume a: "\<forall>j. 1 \<le> j \<and> j \<le> 3 \<longrightarrow> attemptFails e j"
  have *: "r = Inl (FailedAfter 3 (message (projl (handshakeTry 3 (handshake e 3)))))
       \<and> handshakeCalls (added w w') = 3
       \<and> skeleton (added w w') = retryPattern email token delay 3"
    using handshake_all_fail [of 3 e email token delay w r w'] a assms by simp
  from * show "r = Inl (FailedAfter 3 (message (projl (handshakeTry 3 (handshake e 3)))))" by simp
  from * show "handshakeCalls (added w w') = 3" by simp
  from * show "skeleton (added w w') = retryPattern email token delay 3" by simp
qed

theorem attemptHandshake_bounded_retry_witness:
  "fst (attemptHandshake envThird (Some ''user@example.com'') ''tok_abc'' 3 1000 world0)
     = Inr (Some ''{ack:true}'')
   \<and> handshakeCalls (added world0
        (snd (attemptHandshake envThird (Some ''user@example.com'') ''tok_abc'' 3 1000 world0))) = 3
   \<and> skeleton (added world0
        (snd (attemptHandshake envThird (Some ''user@example.com'') ''tok_abc'' 3 1000 world0)))
     = [FetchHandshake (Some ''user@example.com'') ''tok_abc'', Sleep 1000,
        FetchHandshake (Some ''user@example.com'') ''tok_abc'', Sleep 1000,
        FetchHandshake (Some ''user@example.com'') ''tok_abc'']
   \<and> fst (attemptHandshake envNever (Some ''user@example.com'') ''tok_abc'' 3 1000 world0)
     = Inl (FailedAfter 3 ''Failed to fetch'')
   \<and> handshakeCalls (added world0
        (snd (attemptHandshake envNever (Some ''user@example.com'') ''tok_abc'' 3 1000 world0))) = 3"
proof -
  have third: "1 \<le> (3::nat) \<and> (3::nat) \<le> 3 \<and> (\<forall>j. 1 \<le> j \<and> j < 3 \<longrightarrow> attemptFails envThird j)
                 \<and> \<not> attemptFails envThird 3"
    by (simp add: attemptFails_def envThird_def)
  have never: "\<forall>j. 1 \<le> j \<and> j \<le> 3 \<longrightarrow> attemptFails envNever j"
    by (simp add: attemptFails_def envNever_def)
  have p: "retryPattern (Some ''user@example.com'') ''tok_abc'' 1000 3
     = [FetchHandshake (Some ''user@example.com'') ''tok_abc'', Sleep 1000,
        FetchHandshake (Some ''user@example.com'') ''tok_abc'', Sleep 1000,
        FetchHandshake (Some ''user@example.com'') ''tok_abc'']"
    by (simp add: retryPattern_def numeral_2_eq_2)
  have v3: "projr (handshakeTry 3 (handshake envThird 3)) = ''{ack:true}''"
    by (simp add: envThird_def)
  have vn: "message (projl (handshakeTry 3 (handshake envNever 3))) = ''Failed to fetch''"
    by (simp add: envNever_def)
  from attemptHandshake_bounded_retry
         [of envThird "Some ''user@example.com''" "''tok_abc''" 1000 world0
             "fst (attemptHandshake envThird (Some ''user@example.com'') ''tok_abc'' 3 1000 world0)"
             "snd (attemptHandshake envThird (Some ''user@example.com'') ''tok_abc'' 3 1000 world0)"]
       third
  have a: "fst (attemptHandshake envThird (Some ''user@example.com'') ''tok_abc'' 3 1000 world0)
             = Inr (Some (projr (handshakeTry 3 (handshake envThird 3))))
     \<and> handshakeCalls (added world0
        (snd (attemptHandshake envThird (Some ''user@example.com'') ''tok_abc'' 3 1000 world0))) = 3
     \<and> skeleton (added world0
        (snd (attemptHandshake envThird (Some ''user@example.com'') ''tok_abc'' 3 1000 world0)))
       = retryPattern (Some ''user@example.com'') ''tok_abc'' 1000 3"
    by (simp only: prod.collapse simp_thms)
  from attemptHandshake_bounded_retry
         [of envNever "Some ''user@example.com''" "''tok_abc''" 1000 world0
             "fst (attemptHandshake envNever (Some ''user@example.com'') ''tok_abc'' 3 1000 world0)"
             "snd (attemptHandshake envNever (Some ''user@example.com'') ''tok_abc'' 3 1000 world0)"]
       never
  have b: "fst (attemptHandshake envNever (Some ''user@example.com'') ''tok_abc'' 3 1000 world0)
             = Inl (FailedAfter 3 (message (projl (handshakeTry 3 (handshake envNever 3)))))
     \<and> handshakeCalls (added world0
        (snd (attemptHandshake envNever (Some ''user@example.com'') ''tok_abc'' 3 1000 world0))) = 3"
    by (simp only: prod.collapse simp_thms)
  from a b show ?thesis
    by (simp only: p v3 vn simp_thms)
qed

text \<open>
  Claim C10. For every \<open>retries \<ge> 1\<close> and every \<open>delay\<close>, a call of
  \<open>attemptHandshake\<close> leaves the persisted store (and the buttons) as they were: all it
  adds to the trace are handshake requests with the pair it was given, waits of \<open>delay\<close>
  and console lines, none of them a write to or a removal from the store.
\<close>

theorem attemptHandshake_frame:
  assumes "1 \<le> retries"
  shows "storage (snd (attemptHandshake e email token retries delay w)) = storage w
     \<and> buttons (snd (attemptHandshake e email token retries delay w)) = buttons w
     \<and> trace (snd (attemptHandshake e email token retries delay w))
         = trace w @ added w (snd (attemptHandshake e email token retries delay w))
     \<and> (\<forall>ev \<in> set (added w (snd (attemptHandshake e email token retries delay w))).
          \<not> isStoreWrite ev \<and> (ev = FetchHandshake email token \<or> ev = Sleep delay \<or> isConsole ev))"
proof -
  from loop_frame [of e email token retries delay 1 w] obtain evs where
    evs: "snd (attemptLoop e email token retries delay 1 w) = w\<lparr>trace := trace w @ evs\<rparr>"
    "\<forall>ev \<in> set evs. ev = FetchHandshake email token \<or> ev = Sleep delay \<or> isConsole ev"
    by blast
  have "\<not> isStoreWrite ev" if "ev \<in> set evs" for ev
    using evs(2) that by (cases ev) auto
  with evs show ?thesis
    by (simp add: attemptHandshake_def)
qed

theorem attemptHandshake_frame_witness:
  "storage (snd (attemptHandshake envThird (Some ''user@example.com'') ''tok_abc'' 3 1000 world0))
     = Map.empty
   \<and> filter isStoreWrite
       (added world0 (snd (attemptHandshake envThird (Some ''user@example.com'') ''tok_abc'' 3 1000 world0)))
     = []"
proof -
  have "(1::nat) \<le> 3" by simp
  from attemptHandshake_frame [OF this, of envThird "Some ''user@example.com''" "''tok_abc''" 1000 world0]
  show ?thesis
    by (simp add: world0_def filter_empty_conv)
qed

subsection \<open>The logout handler\<close>

text \<open>
  Claim C6. A logout click while the store holds no (truthy) \<^verbatim>\<open>userEmail\<close> takes the
  early return that reports \<^verbatim>\<open>No user email found in storage\<close>, the handler's form of the
  invalid-state abort: the world is as before except for the read of the store and that console
  line, so there is no call to the provider or the backend and no write to or removal from the store.
\<close>

theorem logout_without_email:
  assumes "\<not> truthy (storeRead (storage w) ''userEmail'')"
  shows "logoutClick le w
           = w\<lparr>trace := trace w @ [StorageGet [''userEmail'', ''gmailToken''],
                  Console LevelError ''No user email found in storage'' PNone]\<rparr>
       \<and> storage (logoutClick le w) = storage w
       \<and> filter isOutsideCall (added w (logoutClick le w)) = []
       \<and> filter isStoreWrite (added w (logoutClick le w)) = []"
proof -
  have eq: "logoutClick le w
           = w\<lparr>trace := trace w @ [StorageGet [''userEmail'', ''gmailToken''],
                  Console LevelError ''No user email found in storage'' PNone]\<rparr>"
    using assms by (simp add: logoutClick_def Let_def emit_def console_def)
  show ?thesis
    by (simp add: eq)
qed

theorem logout_without_email_witness:
  "logoutClick envRevokeThrows world0
     = world0\<lparr>trace := [StorageGet [''userEmail'', ''gmailToken''],
                  Console LevelError ''No user email found in storage'' PNone]\<rparr>
   \<and> storage (logoutClick envRevokeThrows world0) = Map.empty"
proof -
  have "\<not> truthy (storeRead (storage world0) ''userEmail'')"
    by (simp add: world0_def storeRead_def)
  from logout_without_email [OF this, of envRevokeThrows] show ?thesis
    by (simp add: world0_def)
qed

lemma logout_storage:
  assumes "truthy (storeRead (storage w) ''userEmail'')"
  shows "storage (logoutClick le w) = storeRemove [''isConnected'', ''userEmail'', ''gmailToken''] (storage w)"
  using assms
  by (simp add: logoutClick_def Let_def emit_def console_def storageRemove_def tokenRemoved_def
           split: revoke_outcome.splits logout_outcome.splits error_body.splits)

lemma logout_buttons:
  assumes "truthy (storeRead (storage w) ''userEmail'')"
  shows "buttons (logoutClick le w)
           = (case revoke le of
                RevokeCallback \<Rightarrow> (buttons w)\<lparr>connectLabel := LConnect, connectDisabled := False,
                     connectDisplay := DisplayBlock, logoutDisplay := DisplayNone\<rparr>
              | RevokeThrows m \<Rightarrow> buttons w)"
  using assms
  by (simp add: logoutClick_def Let_def emit_def console_def storageRemove_def tokenRemoved_def
           split: revoke_outcome.splits logout_outcome.splits error_body.splits)

lemma logout_revoke_throws:
  assumes "truthy (storeRead (storage w) ''userEmail'')" "revoke le = RevokeThrows m"
  shows "logoutClick le w
           = w\<lparr>storage := storeRemove [''isConnected'', ''userEmail'', ''gmailToken''] (storage w),
               trace := trace w @
                 [StorageGet [''userEmail'', ''gmailToken''],
                  StorageRemove [''isConnected'', ''userEmail'', ''gmailToken''],
                  RemoveCachedAuthToken (storeRead (storage w) ''gmailToken''),
                  Console LevelError ''Logout failed:'' (PError (PlatformError m))]\<rparr>"
  using assms
  by (simp add: logoutClick_def Let_def emit_def console_def storageRemove_def)

lemma logout_revoke_callback:
  assumes "truthy (storeRead (storage w) ''userEmail'')" "revoke le = RevokeCallback"
  shows "\<exists>logged. added w (logoutClick le w)
           = [StorageGet [''userEmail'', ''gmailToken''],
              StorageRemove [''isConnected'', ''userEmail'', ''gmailToken''],
              RemoveCachedAuthToken (storeRead (storage w) ''gmailToken''),
              FetchLogout (storeRead (storage w) ''userEmail'')] @ logged
         \<and> (\<forall>ev \<in> set logged. \<exists>s p. ev = Console LevelError s p)
         \<and> (logoutBackend le \<noteq> LogoutOk \<longrightarrow> logged \<noteq> [])"
  using assms
  by (auto simp add: logoutClick_def Let_def emit_def console_def storageRemove_def tokenRemoved_def
        added_def
      split: logout_outcome.splits error_body.splits)

text \<open>
  Claim C4, amended. A logout click while the store holds a \<^verbatim>\<open>userEmail\<close> first removes the keys
  \<^verbatim>\<open>isConnected\<close>, \<^verbatim>\<open>userEmail\<close> and \<^verbatim>\<open>gmailToken\<close>, and only then calls the
  provider's revoke and notifies the backend; whatever the two answer, the three keys are absent
  at the end. When revoke calls back, the buttons are reset and the backend is notified, and a
  notification that fails or throws is logged only: it adds error lines to the console and changes
  nothing else. When revoke throws, the handler's \<^verbatim>\<open>catch\<close> logs \<^verbatim>\<open>Logout failed:\<close>
  with the error, the keys already removed.
\<close>

theorem logout_clears_first:
  assumes "truthy (storeRead (storage w) ''userEmail'')"
  shows "storage (logoutClick le w) ''isConnected'' = None
       \<and> storage (logoutClick le w) ''userEmail'' = None
       \<and> storage (logoutClick le w) ''gmailToken'' = None
       \<and> take 3 (added w (logoutClick le w))
           = [StorageGet [''userEmail'', ''gmailToken''],
              StorageRemove [''isConnected'', ''userEmail'', ''gmailToken''],
              RemoveCachedAuthToken (storeRead (storage w) ''gmailToken'')]
       \<and> notBefore isRevokeOrNotify isStoreWrite (added w (logoutClick le w))
       \<and> (revoke le = RevokeCallback \<longrightarrow>
            buttons (logoutClick le w)
              = (buttons w)\<lparr>connectLabel := LConnect, connectDisabled := False,
                   connectDisplay := DisplayBlock, logoutDisplay := DisplayNone\<rparr>
            \<and> (\<exists>logged. added w (logoutClick le w)
                   = [StorageGet [''userEmail'', ''gmailToken''],
                      StorageRemove [''isConnected'', ''userEmail'', ''gmailToken''],
                      RemoveCachedAuthToken (storeRead (storage w) ''gmailToken''),
                      FetchLogout (storeRead (storage w) ''userEmail'')] @ logged
                 \<and> (\<forall>ev \<in> set logged. \<exists>s p. ev = Console LevelError s p)
                 \<and> (logoutBackend le \<noteq> LogoutOk \<longrightarrow> logged \<noteq> [])))
       \<and> (\<forall>m. revoke le = RevokeThrows m \<longrightarrow>
            last (added w (logoutClick le w))
              = Console LevelError ''Logout failed:'' (PError (PlatformError m)))"
proof -
  have st: "storage (logoutClick le w) ''isConnected'' = None
       \<and> storage (logoutClick le w) ''userEmail'' = None
       \<and> storage (logoutClick le w) ''gmailToken'' = None"
    by (simp add: logout_storage [OF assms])
  show ?thesis
  proof (cases "revoke le")
    case RevokeCallback
    from logout_revoke_callback [OF assms RevokeCallback] obtain logged where
      logged: "added w (logoutClick le w)
           = [StorageGet [''userEmail'', ''gmailToken''],
              StorageRemove [''isConnected'', ''userEmail'', ''gmailToken''],
              RemoveCachedAuthToken (storeRead (storage w) ''gmailToken''),
              FetchLogout (storeRead (storage w) ''userEmail'')] @ logged"
        "\<forall>ev \<in> set logged. \<exists>s p. ev = Console LevelError s p"
        "logoutBackend le \<noteq> LogoutOk \<longrightarrow> logged \<noteq> []"
      by blast
    have first: "take 3 (added w (logoutClick le w))
           = [StorageGet [''userEmail'', ''gmailToken''],
              StorageRemove [''isConnected'', ''userEmail'', ''gmailToken''],
              RemoveCachedAuthToken (storeRead (storage w) ''gmailToken'')]"
      and ord: "notBefore isRevokeOrNotify isStoreWrite (added w (logoutClick le w))"
      by (simp_all add: logged(1))
    have ui: "buttons (logoutClick le w)
              = (buttons w)\<lparr>connectLabel := LConnect, connectDisabled := False,
                   connectDisplay := DisplayBlock, logoutDisplay := DisplayNone\<rparr>"
      using logout_buttons [OF assms, of le] RevokeCallback by simp
    have notified: "\<exists>logged. added w (logoutClick le w)
                   = [StorageGet [''userEmail'', ''gmailToken''],
                      StorageRemove [''isConnected'', ''userEmail'', ''gmailToken''],
                      RemoveCachedAuthToken (storeRead (storage w) ''gmailToken''),
                      FetchLogout (storeRead (storage w) ''userEmail'')] @ logged
                 \<and> (\<forall>ev \<in> set logged. \<exists>s p. ev = Console LevelError s p)
                 \<and> (logoutBackend le \<noteq> LogoutOk \<longrightarrow> logged \<noteq> [])"
      using logged by (intro exI [of _ logged]) simp
    have noThrow: "\<forall>m. revoke le \<noteq> RevokeThrows m"
      using RevokeCallback by simp
    from st first ord ui notified noThrow show ?thesis
      by (intro conjI impI allI) simp_all
  next
    case (RevokeThrows m)
    have run: "added w (logoutClick le w)
           = [StorageGet [''userEmail'', ''gmailToken''],
              StorageRemove [''isConnected'', ''userEmail'', ''gmailToken''],
              RemoveCachedAuthToken (storeRead (storage w) ''gmailToken''),
              Console LevelError ''Logout failed:'' (PError (PlatformError m))]"
      by (simp add: logout_revoke_throws [OF assms RevokeThrows] added_def)
    from st RevokeThrows show ?thesis
      by (simp add: run)
  qed
qed

theorem logout_clears_first_witness:
  "storage (logoutClick envBackendDown worldConnected) ''isConnected'' = None
   \<and> storage (logoutClick envBackendDown worldConnected) ''userEmail'' = None
   \<and> storage (logoutClick envBackendDown worldConnected) ''gmailToken'' = None
   \<and> take 3 (added worldConnected (logoutClick envBackendDown worldConnected))
       = [StorageGet [''userEmail'', ''gmailToken''],
          StorageRemove [''isConnected'', ''userEmail'', ''gmailToken''],
          RemoveCachedAuthToken (VStr ''tok_abc'')]
   \<and> buttons (logoutClick envBackendDown worldConnected)
       = \<lparr>connectLabel = LConnect, connectDisabled = False,
          connectDisplay = DisplayBlock, logoutDisplay = DisplayNone\<rparr>
   \<and> last (added worldConnected (logoutClick envRevokeThrows worldConnected))
       = Console LevelError ''Logout failed:'' (PError (PlatformError ''revoke failed''))"
proof -
  have t: "truthy (storeRead (storage worldConnected) ''userEmail'')"
    by (simp add: worldConnected_def storeRead_def)
  have g: "storeRead (storage worldConnected) ''gmailToken'' = VStr ''tok_abc''"
    by (simp add: worldConnected_def storeRead_def)
  have r: "revoke envRevokeThrows = RevokeThrows ''revoke failed''"
    by (simp add: envRevokeThrows_def)
  have c: "revoke envBackendDown = RevokeCallback"
    by (simp add: envBackendDown_def)
  have b: "(buttons worldConnected)\<lparr>connectLabel := LConnect, connectDisabled := False,
                   connectDisplay := DisplayBlock, logoutDisplay := DisplayNone\<rparr>
           = \<lparr>connectLabel = LConnect, connectDisabled = False,
              connectDisplay = DisplayBlock, logoutDisplay = DisplayNone\<rparr>"
    by (simp add: worldConnected_def)
  from logout_clears_first [OF t, of envBackendDown] logout_clears_first [OF t, of envRevokeThrows]
  show ?thesis
    by (simp add: g r c b)
qed

text \<open>
  Claim C4, as stated, fails: a revoke that throws is not logged only. The handler ends in its
  \<^verbatim>\<open>catch\<close>: the backend is never notified and the buttons are not reset, so the logout
  button stays shown and the connect button hidden.
\<close>

theorem logout_revoke_throws_counterexample:
  "revoke envRevokeThrows = RevokeThrows ''revoke failed''
   \<and> added worldConnected (logoutClick envRevokeThrows worldConnected)
       = [StorageGet [''userEmail'', ''gmailToken''],
          StorageRemove [''isConnected'', ''userEmail'', ''gmailToken''],
          RemoveCachedAuthToken (VStr ''tok_abc''),
          Console LevelError ''Logout failed:'' (PError (PlatformError ''revoke failed''))]
   \<and> logoutDisplay (buttons (logoutClick envRevokeThrows worldConnected)) = DisplayBlock
   \<and> connectDisplay (buttons (logoutClick envRevokeThrows worldConnected)) = DisplayNone"
proof -
  have t: "truthy (storeRead (storage worldConnected) ''userEmail'')"
    by (simp add: worldConnected_def storeRead_def)
  have r: "revoke envRevokeThrows = RevokeThrows ''revoke failed''"
    by (simp add: envRevokeThrows_def)
  show ?thesis
    by (simp add: logout_revoke_throws [OF t r] r added_def)
       (simp add: worldConnected_def storeRead_def)
qed

subsection \<open>The connect handler, path by path\<close>

lemma tab_shape:
  "\<exists>evs. trace (tabCreated e email token w) = trace w @ evs
     \<and> (\<forall>ev \<in> set evs. ev = FetchHandshake email token \<or> ev = Sleep 1000 \<or> isConsole ev
           \<or> ev = StorageSet [(''isConnected'', VBool True), (''userEmail'', emailValue email)]
           \<or> ev = StorageGet [''isConnected''] \<or> ev = TabsUpdateLater)"
proof -
  from loop_frame [of e email token 3 1000 1 w] obtain evs where
    evs: "snd (attemptLoop e email token 3 1000 1 w) = w\<lparr>trace := trace w @ evs\<rparr>"
    "\<forall>ev \<in> set evs. ev = FetchHandshake email token \<or> ev = Sleep 1000 \<or> isConsole ev"
    by blast
  obtain r where r: "attemptLoop e email token 3 1000 1 w = (r, w\<lparr>trace := trace w @ evs\<rparr>)"
    using evs(1) by (cases "attemptLoop e email token 3 1000 1 w") simp
  show ?thesis
  proof (cases r)
    case (Inl err)
    let ?all = "evs @ [Console LevelError ''Handshake failed:'' (PError err), TabsUpdateLater]"
    have "trace (tabCreated e email token w) = trace w @ ?all"
      using r Inl
      by (simp add: tabCreated_def attemptHandshake_def showError_def setConnectText_def
            setButtonLoading_def console_def emit_def)
    moreover have "\<forall>ev \<in> set ?all. ev = FetchHandshake email token \<or> ev = Sleep 1000 \<or> isConsole ev
           \<or> ev = StorageSet [(''isConnected'', VBool True), (''userEmail'', emailValue email)]
           \<or> ev = StorageGet [''isConnected''] \<or> ev = TabsUpdateLater"
      using evs(2) by auto
    ultimately show ?thesis by blast
  next
    case (Inr resp)
    obtain v where tr: "trace (tabCreated e email token w) = trace w @ evs @
         [Console LevelLog ''Connection successful:'' (ackPayload resp),
          StorageSet [(''isConnected'', VBool True), (''userEmail'', emailValue email)],
          Console LevelLog ''Storage updated with connection status'' PNone,
          StorageGet [''isConnected''],
          Console LevelLog ''Storage after setting:'' (PValue v),
          TabsUpdateLater]"
      using r Inr
      by (simp add: tabCreated_def attemptHandshake_def Let_def storageSet_def console_def emit_def)
    let ?all = "evs @
         [Console LevelLog ''Connection successful:'' (ackPayload resp),
          StorageSet [(''isConnected'', VBool True), (''userEmail'', emailValue email)],
          Console LevelLog ''Storage updated with connection status'' PNone,
          StorageGet [''isConnected''],
          Console LevelLog ''Storage after setting:'' (PValue v),
          TabsUpdateLater]"
    have "\<forall>ev \<in> set ?all. ev = FetchHandshake email token \<or> ev = Sleep 1000 \<or> isConsole ev
           \<or> ev = StorageSet [(''isConnected'', VBool True), (''userEmail'', emailValue email)]
           \<or> ev = StorageGet [''isConnected''] \<or> ev = TabsUpdateLater"
      using evs(2) by auto
    with tr show ?thesis by blast
  qed
qed

lemma tab_extends:
  "trace (tabCreated e email token w) = trace w @ added w (tabCreated e email token w)"
  using tab_shape [of e email token w] by (auto simp: added_def)

lemma tab_events:
  assumes "ev \<in> set (added w (tabCreated e email token w))"
  shows "ev = FetchHandshake email token \<or> ev = Sleep 1000 \<or> isConsole ev
           \<or> ev = StorageSet [(''isConnected'', VBool True), (''userEmail'', emailValue email)]
           \<or> ev = StorageGet [''isConnected''] \<or> ev = TabsUpdateLater"
  using tab_shape [of e email token w] assms by (auto simp: added_def)

lemma connect_registered:
  assumes "auth e = AuthToken t" "userinfo e = UserinfoJson email" "storeToken e = StoreTokenOk"
  shows "connectClick e w = tabCreated e email t (registered email t w)"
  using assms
  by (simp add: connectClick_def tokenReceived_def registerToken_def Let_def registered_def
        storageSet_def emit_def setButtonLoading_def)

lemma connect_auth_lastError:
  assumes "auth e = AuthLastError m"
  shows "connectClick e w
           = w\<lparr>buttons := (buttons w)\<lparr>connectLabel := LError, connectDisabled := False\<rparr>,
               trace := trace w @ [GetAuthToken, Console LevelError [] (PJson m)]\<rparr>"
  using assms
  by (simp add: connectClick_def Let_def showError_def setConnectText_def setButtonLoading_def
        console_def emit_def)

lemma connect_auth_throws:
  assumes "auth e = AuthThrows m"
  shows "connectClick e w
           = w\<lparr>buttons := (buttons w)\<lparr>connectLabel := LError, connectDisabled := False\<rparr>,
               trace := trace w @ [GetAuthToken,
                  Console LevelError ''Error:'' (PError (PlatformError m))]\<rparr>"
  using assms
  by (simp add: connectClick_def Let_def showError_def setConnectText_def setButtonLoading_def
        console_def emit_def)

lemma connect_identity_fails:
  assumes "auth e = AuthToken t" "userinfo e = UserinfoThrows m"
  shows "connectClick e w
           = w\<lparr>storage := (storage w)(''gmailToken'' \<mapsto> VStr t),
               buttons := (buttons w)\<lparr>connectLabel := LError, connectDisabled := False\<rparr>,
               trace := trace w @ [GetAuthToken, StorageSet [(''gmailToken'', VStr t)], FetchUserinfo t,
                  Console LevelError ''Error:'' (PError (PlatformError m))]\<rparr>"
  using assms
  by (simp add: connectClick_def tokenReceived_def registerToken_def Let_def showError_def
        setConnectText_def setButtonLoading_def storageSet_def console_def emit_def)

lemma connect_storeToken_fails:
  assumes "auth e = AuthToken t" "userinfo e = UserinfoJson email" "storeToken e \<noteq> StoreTokenOk"
  shows "connectClick e w
           = w\<lparr>storage := (storage w)(''gmailToken'' \<mapsto> VStr t),
               buttons := (buttons w)\<lparr>connectLabel := LError, connectDisabled := False\<rparr>,
               trace := trace w @ [GetAuthToken, StorageSet [(''gmailToken'', VStr t)], FetchUserinfo t,
                  FetchStoreToken email t,
                  Console LevelError ''Error:'' (PError (registerError e))]\<rparr>"
  using assms
  by (simp add: connectClick_def tokenReceived_def registerToken_def Let_def showError_def
        setConnectText_def setButtonLoading_def storageSet_def console_def emit_def registerError_def
      split: storetoken_outcome.splits error_body.splits option.splits)

subsection \<open>The connect handler as a whole\<close>

lemma connect_cases [case_names lastError throws identity rejected registered]:
  obtains
    (lastError) m where "auth e = AuthLastError m"
  | (throws) m where "auth e = AuthThrows m"
  | (identity) t m where "auth e = AuthToken t" "userinfo e = UserinfoThrows m"
  | (rejected) t email where "auth e = AuthToken t" "userinfo e = UserinfoJson email"
      "storeToken e \<noteq> StoreTokenOk"
  | (registered) t email where "auth e = AuthToken t" "userinfo e = UserinfoJson email"
      "storeToken e = StoreTokenOk"
  by (cases "auth e"; cases "userinfo e"; cases "storeToken e = StoreTokenOk") auto

lemma connect_registered_added:
  assumes "auth e = AuthToken t" "userinfo e = UserinfoJson email" "storeToken e = StoreTokenOk"
  shows "added w (connectClick e w)
           = [GetAuthToken, StorageSet [(''gmailToken'', VStr t)], FetchUserinfo t,
              FetchStoreToken email t,
              StorageSet [(''isConnected'', VBool True), (''userEmail'', emailValue email)],
              TabsCreate]
             @ added (registered email t w) (tabCreated e email t (registered email t w))"
proof -
  have "trace (connectClick e w)
          = trace (registered email t w)
            @ added (registered email t w) (tabCreated e email t (registered email t w))"
    unfolding connect_registered [OF assms] by (rule tab_extends)
  then show ?thesis
    by (simp add: added_def registered_def)
qed

text \<open>
  Claim C9. In one run of the connect handler, the storeToken request and every handshake
  request carry the same pair: the token the provider returned and the email of the userinfo
  answer. The token is asked for once and the userinfo endpoint at most once, so no request
  of the run can carry another pair.
\<close>

theorem connect_same_pair:
  "(\<forall>ev \<in> set (added w (connectClick e w)). \<forall>email token.
       ev = FetchStoreToken email token \<or> ev = FetchHandshake email token
         \<longrightarrow> auth e = AuthToken token \<and> userinfo e = UserinfoJson email)
   \<and> length (filter (\<lambda>ev. ev = GetAuthToken) (added w (connectClick e w))) = 1
   \<and> length (filter isUserinfoCall (added w (connectClick e w))) \<le> 1"
proof (cases rule: connect_cases [of e])
  case (lastError m)
  then show ?thesis by (simp add: connect_auth_lastError added_def)
next
  case (throws m)
  then show ?thesis by (simp add: connect_auth_throws added_def)
next
  case (identity t m)
  then show ?thesis by (simp add: connect_identity_fails added_def)
next
  case (rejected t email)
  then show ?thesis by (simp add: connect_storeToken_fails added_def)
next
  case (registered t email)
  let ?tab = "added (registered email t w) (tabCreated e email t (registered email t w))"
  have tab: "ev = FetchHandshake email t \<or> ev = Sleep 1000 \<or> isConsole ev
           \<or> ev = StorageSet [(''isConnected'', VBool True), (''userEmail'', emailValue email)]
           \<or> ev = StorageGet [''isConnected''] \<or> ev = TabsUpdateLater" if "ev \<in> set ?tab" for ev
    using that by (rule tab_events)
  have pair: "auth e = AuthToken token \<and> userinfo e = UserinfoJson email'"
    if "ev \<in> set ?tab" "ev = FetchStoreToken email' token \<or> ev = FetchHandshake email' token"
    for ev email' token
    using tab [OF that(1)] that(2) registered by auto
  have noAuth: "filter (\<lambda>ev. ev = GetAuthToken) ?tab = []"
    using tab by (fastforce simp: filter_empty_conv)
  have "\<not> isUserinfoCall ev" if "ev \<in> set ?tab" for ev
    using tab [OF that] by (cases ev) auto
  then have noInfo: "filter isUserinfoCall ?tab = []"
    by (simp add: filter_empty_conv)
  show ?thesis
    using registered pair noAuth noInfo
    by (auto simp: connect_registered_added [OF registered])
qed

theorem connect_same_pair_witness:
  "FetchStoreToken (Some ''user@example.com'') ''tok_abc''
     \<in> set (added world0 (connectClick envThird world0))
   \<and> auth envThird = AuthToken ''tok_abc''
   \<and> userinfo envThird = UserinfoJson (Some ''user@example.com'')"
proof -
  have "FetchStoreToken (Some ''user@example.com'') ''tok_abc''
          \<in> set (added world0 (connectClick envThird world0))"
    by (subst connect_registered_added [of envThird "''tok_abc''" "Some ''user@example.com''"])
       (simp_all add: envThird_def)
  with connect_same_pair [of world0 envThird] show ?thesis
    by blast
qed

subsection \<open>What the connect handler persists\<close>

lemma tab_no_storeToken:
  "filter isStoreTokenCall (added w (tabCreated e email token w)) = []"
proof -
  have "\<not> isStoreTokenCall ev" if "ev \<in> set (added w (tabCreated e email token w))" for ev
    using tab_events [OF that] by (cases ev) auto
  then show ?thesis by (simp add: filter_empty_conv)
qed

text \<open>
  Claim C1, amended. The handler writes \<^verbatim>\<open>isConnected\<close> (and \<^verbatim>\<open>userEmail\<close>) only
  after the storeToken request, and only when storeToken answered with success; it does not
  wait for the handshake. When no token arrives the store is left as it was. When a token
  arrived and then the userinfo request throws or storeToken fails, \<^verbatim>\<open>isConnected\<close> and
  \<^verbatim>\<open>userEmail\<close> are left as they were, and \<^verbatim>\<open>gmailToken\<close> holds the token, written as
  soon as it arrived.
\<close>

theorem connect_asserts_after_storeToken:
  "((\<forall>t. auth e \<noteq> AuthToken t) \<longrightarrow> storage (connectClick e w) = storage w)
   \<and> (\<forall>t. auth e = AuthToken t \<and> ((\<exists>m. userinfo e = UserinfoThrows m) \<or> storeToken e \<noteq> StoreTokenOk)
          \<longrightarrow> storage (connectClick e w) = (storage w)(''gmailToken'' \<mapsto> VStr t))
   \<and> notBefore (writesKey ''isConnected'') isStoreTokenCall (added w (connectClick e w))
   \<and> notBefore (writesKey ''userEmail'') isStoreTokenCall (added w (connectClick e w))
   \<and> ((\<exists>ev \<in> set (added w (connectClick e w)). writesKey ''isConnected'' ev \<or> writesKey ''userEmail'' ev)
          \<longrightarrow> storeToken e = StoreTokenOk)"
proof (cases rule: connect_cases [of e])
  case (lastError m)
  then show ?thesis by (simp add: connect_auth_lastError added_def writesKey_def)
next
  case (throws m)
  then show ?thesis by (simp add: connect_auth_throws added_def writesKey_def)
next
  case (identity t m)
  then show ?thesis by (simp add: connect_identity_fails added_def writesKey_def)
next
  case (rejected t email)
  then show ?thesis by (simp add: connect_storeToken_fails added_def writesKey_def)
next
  case (registered t email)
  then show ?thesis by (simp add: connect_registered_added [OF registered] writesKey_def)
qed

theorem connect_asserts_after_storeToken_witness:
  "storage (connectClick envDenied world0) = Map.empty
   \<and> storage (connectClick envStoreDown world0) = [''gmailToken'' \<mapsto> VStr ''tok_abc'']
   \<and> storage (connectClick envStoreDown world0) ''isConnected'' = None
   \<and> storage (connectClick envStoreDown world0) ''userEmail'' = None"
proof -
  have "\<forall>t. auth envDenied \<noteq> AuthToken t"
    by (simp add: envDenied_def)
  with connect_asserts_after_storeToken [of envDenied world0]
  have denied: "storage (connectClick envDenied world0) = storage world0"
    by blast
  have "auth envStoreDown = AuthToken ''tok_abc''
        \<and> ((\<exists>m. userinfo envStoreDown = UserinfoThrows m) \<or> storeToken envStoreDown \<noteq> StoreTokenOk)"
    by (simp add: envStoreDown_def)
  with connect_asserts_after_storeToken [of envStoreDown world0]
  have "storage (connectClick envStoreDown world0) = (storage world0)(''gmailToken'' \<mapsto> VStr ''tok_abc'')"
    by blast
  with denied show ?thesis
    by (simp add: world0_def)
qed

text \<open>
  Claim C1, as stated, fails: with a backend that accepts storeToken and fails all three
  handshake attempts, the store ends with \<^verbatim>\<open>isConnected\<close> true and both other keys set.
\<close>

theorem connect_handshake_exhausted_counterexample:
  "attemptFails envNever 1 \<and> attemptFails envNever 2 \<and> attemptFails envNever 3
   \<and> storage (connectClick envNever world0) ''isConnected'' = Some (VBool True)
   \<and> storage (connectClick envNever world0) ''userEmail'' = Some (VStr ''user@example.com'')
   \<and> storage (connectClick envNever world0) ''gmailToken'' = Some (VStr ''tok_abc'')"
proof -
  have f: "attemptFails envNever 1 \<and> attemptFails envNever 2 \<and> attemptFails envNever 3"
    by (simp add: attemptFails_def envNever_def)
  have "\<forall>j. 1 \<le> j \<and> j \<le> 3 \<longrightarrow> attemptFails envNever j"
    by (simp add: attemptFails_def envNever_def)
  from loop_exhausted [of 1 3 envNever "Some ''user@example.com''" "''tok_abc''" 1000
         "registered (Some ''user@example.com'') ''tok_abc'' world0", OF _ this]
  obtain evs err where
    "attemptLoop envNever (Some ''user@example.com'') ''tok_abc'' 3 1000 1
        (registered (Some ''user@example.com'') ''tok_abc'' world0)
       = (Inl (FailedAfter 3 (message err)),
          (registered (Some ''user@example.com'') ''tok_abc'' world0)
            \<lparr>trace := trace (registered (Some ''user@example.com'') ''tok_abc'' world0) @ evs\<rparr>)"
    by auto
  then have "storage (tabCreated envNever (Some ''user@example.com'') ''tok_abc''
                (registered (Some ''user@example.com'') ''tok_abc'' world0))
             = storage (registered (Some ''user@example.com'') ''tok_abc'' world0)"
    by (simp add: tabCreated_def attemptHandshake_def console_def emit_def showError_def
          setConnectText_def setButtonLoading_def)
  moreover have "connectClick envNever world0
       = tabCreated envNever (Some ''user@example.com'') ''tok_abc''
           (registered (Some ''user@example.com'') ''tok_abc'' world0)"
    by (rule connect_registered) (simp_all add: envNever_def)
  ultimately have "storage (connectClick envNever world0)
      = storage (registered (Some ''user@example.com'') ''tok_abc'' world0)"
    by simp
  with f show ?thesis
    by (simp add: registered_def world0_def emailValue_def)
qed

text \<open>
  Claim C3, amended. When storeToken fails (the request throws or the answer is not 2xx), the
  connect attempt aborts: no handshake request is made, \<^verbatim>\<open>isConnected\<close> and
  \<^verbatim>\<open>userEmail\<close> are not written and the button shows the error text. The token is not
  discarded: the only write of the attempt is the one that stored it under \<^verbatim>\<open>gmailToken\<close>
  before the request, and it stays there.
\<close>

theorem connect_storeToken_failure:
  assumes "auth e = AuthToken t" "userinfo e = UserinfoJson email" "storeToken e \<noteq> StoreTokenOk"
  shows "handshakeCalls (added w (connectClick e w)) = 0
     \<and> filter isStoreWrite (added w (connectClick e w)) = [StorageSet [(''gmailToken'', VStr t)]]
     \<and> storage (connectClick e w) = (storage w)(''gmailToken'' \<mapsto> VStr t)
     \<and> storage (connectClick e w) ''gmailToken'' = Some (VStr t)
     \<and> buttons (connectClick e w) = (buttons w)\<lparr>connectLabel := LError, connectDisabled := False\<rparr>"
proof -
  let ?evs = "[GetAuthToken, StorageSet [(''gmailToken'', VStr t)], FetchUserinfo t,
               FetchStoreToken email t, Console LevelError ''Error:'' (PError (registerError e))]"
  have final: "connectClick e w
           = w\<lparr>storage := (storage w)(''gmailToken'' \<mapsto> VStr t),
               buttons := (buttons w)\<lparr>connectLabel := LError, connectDisabled := False\<rparr>,
               trace := trace w @ ?evs\<rparr>"
    using assms by (rule connect_storeToken_fails)
  then have evs: "added w (connectClick e w) = ?evs"
    by (simp add: added_def)
  have "handshakeCalls ?evs = 0"
    by (simp add: handshakeCalls_def)
  moreover have "filter isStoreWrite ?evs = [StorageSet [(''gmailToken'', VStr t)]]"
    by simp
  ultimately show ?thesis
    by (simp add: evs) (simp add: final)
qed

theorem connect_storeToken_failure_witness:
  "handshakeCalls (added world0 (connectClick envStoreDown world0)) = 0
   \<and> filter isStoreWrite (added world0 (connectClick envStoreDown world0))
       = [StorageSet [(''gmailToken'', VStr ''tok_abc'')]]
   \<and> storage (connectClick envStoreDown world0) ''gmailToken'' = Some (VStr ''tok_abc'')"
proof -
  have "auth envStoreDown = AuthToken ''tok_abc''"
    "userinfo envStoreDown = UserinfoJson (Some ''user@example.com'')"
    "storeToken envStoreDown \<noteq> StoreTokenOk"
    by (simp_all add: envStoreDown_def)
  from connect_storeToken_failure [OF this, of world0] show ?thesis
    by simp
qed

text \<open>
  Claim C3, as stated, fails: after a storeToken request that throws, the key
  \<^verbatim>\<open>gmailToken\<close>, absent before, holds the token.
\<close>

theorem connect_storeToken_failure_counterexample:
  "storeToken envStoreDown = StoreTokenThrows ''Failed to fetch''
   \<and> storage world0 ''gmailToken'' = None
   \<and> storage (connectClick envStoreDown world0) ''gmailToken'' = Some (VStr ''tok_abc'')"
proof -
  have "connectClick envStoreDown world0
          = world0\<lparr>storage := (storage world0)(''gmailToken'' \<mapsto> VStr ''tok_abc''),
               buttons := (buttons world0)\<lparr>connectLabel := LError, connectDisabled := False\<rparr>,
               trace := trace world0 @ [GetAuthToken, StorageSet [(''gmailToken'', VStr ''tok_abc'')],
                  FetchUserinfo ''tok_abc'', FetchStoreToken (Some ''user@example.com'') ''tok_abc'',
                  Console LevelError ''Error:'' (PError (registerError envStoreDown))]\<rparr>"
    by (rule connect_storeToken_fails) (simp_all add: envStoreDown_def)
  then show ?thesis
    by (simp add: envStoreDown_def world0_def)
qed

text \<open>
  Claim C5, amended. A connect attempt makes at most one storeToken request, and exactly one
  when a token and a userinfo answer arrived. When the answer is not 2xx and its body has a
  non-empty \<^verbatim>\<open>detail\<close>, no handshake request is made, the error the handler reports (its last
  console line) is \<^verbatim>\<open>Failed to connect Gmail: \<close> followed by that detail, and the store differs
  from the initial one in \<^verbatim>\<open>gmailToken\<close> only, which holds the token.
\<close>

theorem connect_storeToken_once:
  "length (filter isStoreTokenCall (added w (connectClick e w))) \<le> 1
   \<and> (\<forall>t email. auth e = AuthToken t \<and> userinfo e = UserinfoJson email
         \<longrightarrow> filter isStoreTokenCall (added w (connectClick e w)) = [FetchStoreToken email t])
   \<and> (\<forall>t email d. auth e = AuthToken t \<and> userinfo e = UserinfoJson email
           \<and> storeToken e = StoreTokenNotOk (BodyDetail (Some d)) \<and> d \<noteq> []
         \<longrightarrow> handshakeCalls (added w (connectClick e w)) = 0
           \<and> storage (connectClick e w) = (storage w)(''gmailToken'' \<mapsto> VStr t)
           \<and> last (added w (connectClick e w))
               = Console LevelError ''Error:'' (PError (StoreTokenRejected d))
           \<and> message (StoreTokenRejected d) = ''Failed to connect Gmail: '' @ d)"
proof (cases rule: connect_cases [of e])
  case (lastError m)
  then show ?thesis by (simp add: connect_auth_lastError added_def)
next
  case (throws m)
  then show ?thesis by (simp add: connect_auth_throws added_def)
next
  case (identity t m)
  then show ?thesis by (simp add: connect_identity_fails added_def)
next
  case (rejected t email)
  then show ?thesis
    by (auto simp add: connect_storeToken_fails added_def handshakeCalls_def registerError_def)
next
  case (registered t email)
  then show ?thesis
    by (simp add: connect_registered_added [OF registered] tab_no_storeToken)
qed

theorem connect_storeToken_once_witness:
  "filter isStoreTokenCall (added world0 (connectClick envBadToken world0))
     = [FetchStoreToken (Some ''user@example.com'') ''tok_abc'']
   \<and> handshakeCalls (added world0 (connectClick envBadToken world0)) = 0
   \<and> storage (connectClick envBadToken world0) = [''gmailToken'' \<mapsto> VStr ''tok_abc'']
   \<and> last (added world0 (connectClick envBadToken world0))
       = Console LevelError ''Error:'' (PError (StoreTokenRejected ''bad token''))
   \<and> message (StoreTokenRejected ''bad token'') = ''Failed to connect Gmail: bad token''"
proof -
  have h: "auth envBadToken = AuthToken ''tok_abc''
       \<and> userinfo envBadToken = UserinfoJson (Some ''user@example.com'')
       \<and> storeToken envBadToken = StoreTokenNotOk (BodyDetail (Some ''bad token''))
       \<and> ''bad token'' \<noteq> []"
    by (simp add: envBadToken_def)
  from connect_storeToken_once [of world0 envBadToken] h
  have "filter isStoreTokenCall (added world0 (connectClick envBadToken world0))
           = [FetchStoreToken (Some ''user@example.com'') ''tok_abc'']"
    and "handshakeCalls (added world0 (connectClick envBadToken world0)) = 0
           \<and> storage (connectClick envBadToken world0) = (storage world0)(''gmailToken'' \<mapsto> VStr ''tok_abc'')
           \<and> last (added world0 (connectClick envBadToken world0))
               = Console LevelError ''Error:'' (PError (StoreTokenRejected ''bad token''))
           \<and> message (StoreTokenRejected ''bad token'') = ''Failed to connect Gmail: '' @ ''bad token''"
    by blast+
  then show ?thesis
    by (simp add: world0_def)
qed

text \<open>
  Claim C5, as stated, fails: after a 400 answer with detail \<^verbatim>\<open>bad token\<close> the store, empty
  before the attempt, is not empty.
\<close>

theorem connect_storeToken_rejected_counterexample:
  "storeToken envBadToken = StoreTokenNotOk (BodyDetail (Some ''bad token''))
   \<and> storage world0 = Map.empty
   \<and> storage (connectClick envBadToken world0) \<noteq> Map.empty"
proof -
  have "connectClick envBadToken world0
          = world0\<lparr>storage := (storage world0)(''gmailToken'' \<mapsto> VStr ''tok_abc''),
               buttons := (buttons world0)\<lparr>connectLabel := LError, connectDisabled := False\<rparr>,
               trace := trace world0 @ [GetAuthToken, StorageSet [(''gmailToken'', VStr ''tok_abc'')],
                  FetchUserinfo ''tok_abc'', FetchStoreToken (Some ''user@example.com'') ''tok_abc'',
                  Console LevelError ''Error:'' (PError (registerError envBadToken))]\<rparr>"
    by (rule connect_storeToken_fails) (simp_all add: envBadToken_def)
  then show ?thesis
    by (simp add: envBadToken_def world0_def)
qed

text \<open>
  Claim C7, amended. The connect handler writes the store in two groups, never removing a key:
  \<^verbatim>\<open>gmailToken\<close> alone, and \<^verbatim>\<open>isConnected\<close> together with \<^verbatim>\<open>userEmail\<close>. The logout
  handler never writes a key, and removes the three keys together only.
\<close>

theorem store_keys_grouping:
  "(\<forall>ev \<in> set (added w (connectClick e w)).
       isStoreWrite ev \<longrightarrow> writtenKeys ev = [''gmailToken'']
                          \<or> writtenKeys ev = [''isConnected'', ''userEmail''])
   \<and> (\<forall>ev \<in> set (added v (logoutClick le v)).
       isStoreWrite ev \<longrightarrow> removedKeys ev = [''isConnected'', ''userEmail'', ''gmailToken''])"
proof
  show "\<forall>ev \<in> set (added w (connectClick e w)).
       isStoreWrite ev \<longrightarrow> writtenKeys ev = [''gmailToken'']
                          \<or> writtenKeys ev = [''isConnected'', ''userEmail'']"
  proof (cases rule: connect_cases [of e])
    case (lastError m)
    then show ?thesis by (simp add: connect_auth_lastError added_def)
  next
    case (throws m)
    then show ?thesis by (simp add: connect_auth_throws added_def)
  next
    case (identity t m)
    then show ?thesis by (simp add: connect_identity_fails added_def)
  next
    case (rejected t email)
    then show ?thesis by (simp add: connect_storeToken_fails added_def)
  next
    case (registered t email)
    have "writtenKeys ev = [''isConnected'', ''userEmail'']"
      if "ev \<in> set (added (registered email t w) (tabCreated e email t (registered email t w)))"
        "isStoreWrite ev" for ev
      using tab_events [OF that(1)] that(2) by (cases ev) auto
    then show ?thesis
      by (auto simp: connect_registered_added [OF registered])
  qed
next
  show "\<forall>ev \<in> set (added v (logoutClick le v)).
       isStoreWrite ev \<longrightarrow> removedKeys ev = [''isConnected'', ''userEmail'', ''gmailToken'']"
    by (auto simp add: logoutClick_def Let_def emit_def console_def storageRemove_def tokenRemoved_def
          added_def
        split: revoke_outcome.splits logout_outcome.splits error_body.splits)
qed

theorem store_keys_grouping_witness:
  "writtenKeys (StorageSet [(''gmailToken'', VStr ''tok_abc'')]) = [''gmailToken'']
   \<and> removedKeys (StorageRemove [''isConnected'', ''userEmail'', ''gmailToken''])
       = [''isConnected'', ''userEmail'', ''gmailToken'']
   \<and> StorageSet [(''gmailToken'', VStr ''tok_abc'')] \<in> set (added world0 (connectClick envStoreDown world0))
   \<and> StorageRemove [''isConnected'', ''userEmail'', ''gmailToken'']
       \<in> set (added worldConnected (logoutClick envRevokeThrows worldConnected))"
proof -
  have a: "StorageSet [(''gmailToken'', VStr ''tok_abc'')] \<in> set (added world0 (connectClick envStoreDown world0))"
    by (subst connect_storeToken_fails [of envStoreDown "''tok_abc''" "Some ''user@example.com''"])
       (simp_all add: envStoreDown_def added_def)
  have b: "StorageRemove [''isConnected'', ''userEmail'', ''gmailToken'']
       \<in> set (added worldConnected (logoutClick envRevokeThrows worldConnected))"
    by (simp add: logoutClick_def Let_def emit_def console_def storageRemove_def added_def
         worldConnected_def world0_def envRevokeThrows_def storeRead_def)
  from store_keys_grouping [of world0 envStoreDown worldConnected envRevokeThrows] a b
  show ?thesis
    by auto
qed

text \<open>
  Claim C7, as stated, fails: a successful connect attempt writes \<^verbatim>\<open>gmailToken\<close> in one call
  and \<^verbatim>\<open>isConnected\<close> with \<^verbatim>\<open>userEmail\<close> in another.
\<close>

theorem store_keys_grouping_counterexample:
  "StorageSet [(''gmailToken'', VStr ''tok_abc'')] \<in> set (added world0 (connectClick envThird world0))
   \<and> StorageSet [(''isConnected'', VBool True), (''userEmail'', VStr ''user@example.com'')]
       \<in> set (added world0 (connectClick envThird world0))"
proof -
  have "added world0 (connectClick envThird world0)
           = [GetAuthToken, StorageSet [(''gmailToken'', VStr ''tok_abc'')], FetchUserinfo ''tok_abc'',
              FetchStoreToken (Some ''user@example.com'') ''tok_abc'',
              StorageSet [(''isConnected'', VBool True),
                          (''userEmail'', emailValue (Some ''user@example.com''))],
              TabsCreate]
             @ added (registered (Some ''user@example.com'') ''tok_abc'' world0)
                 (tabCreated envThird (Some ''user@example.com'') ''tok_abc''
                    (registered (Some ''user@example.com'') ''tok_abc'' world0))"
    by (rule connect_registered_added) (simp_all add: envThird_def)
  then show ?thesis
    by (simp add: emailValue_def)
qed

subsection \<open>Clicks while a connect run is suspended\<close>

text \<open>The handler resumes from these worlds when the answers arrive.\<close>

lemma registerToken_stages:
  "registerToken e token (tokenStored token w)
     = (case userinfo e of
          UserinfoThrows m \<Rightarrow> (Inl (PlatformError m), identifying token w)
        | UserinfoJson email \<Rightarrow>
            (case storeToken e of
               StoreTokenThrows m \<Rightarrow> (Inl (PlatformError m), registering email token w)
             | StoreTokenNotOk body \<Rightarrow>
                 (case body of
                    BodyThrows m \<Rightarrow> (Inl (PlatformError m), registering email token w)
                  | BodyDetail detail \<Rightarrow>
                      (Inl (registerError e), setConnectText LError (registering email token w)))
             | StoreTokenOk \<Rightarrow> (Inr email, registered email token w)))"
  by (simp add: registerToken_def Let_def identifying_def registering_def tokenStored_def
        acquiring_def registered_def registerError_def storageSet_def emit_def setButtonLoading_def
      split: userinfo_outcome.splits storetoken_outcome.splits error_body.splits option.splits)


lemma registered_from_connectionStored:
  "registered email token w
     = emit TabsCreate
         ((connectionStored email token w)
            \<lparr>buttons := (buttons (connectionStored email token w))
               \<lparr>connectLabel := LConnected, connectDisabled := True,
                connectDisplay := DisplayNone, logoutDisplay := DisplayBlock\<rparr>\<rparr>)"
  by (simp add: registered_def connectionStored_def registering_def identifying_def tokenStored_def
        acquiring_def storageSet_def emit_def setButtonLoading_def)





end
